theory Spec2Isabelle
  imports Main "HOL-Library.Sublist" "HOL-Library.Char_ord"
begin

section \<open>Go strings\<close>

text \<open>
  A Go \<^verbatim>\<open>string\<close> is a sequence of bytes, so it is modelled by \<^typ>\<open>string\<close>
  (a list of 8-bit characters). The functions of package \<^verbatim>\<open>strings\<close> and \<^verbatim>\<open>regexp\<close>
  that the converter calls are written out on bytes below.
\<close>

definition isASCII :: "char \<Rightarrow> bool" where
  "isASCII c = (c < CHR 0x80)"

definition isUpperASCII :: "char \<Rightarrow> bool" where
  "isUpperASCII c = (CHR ''A'' \<le> c \<and> c \<le> CHR ''Z'')"

definition lowerASCII :: "char \<Rightarrow> char" where
  "lowerASCII c = (if isUpperASCII c then char_of (of_char c + (32::nat)) else c)"

text \<open>
  \<^verbatim>\<open>strings.ToLower\<close>: a string of ASCII bytes only is lowered byte by byte; any other
  string goes through \<^verbatim>\<open>strings.Map(unicode.ToLower, s)\<close>, whose Unicode tables are
  not part of the repository and are taken as the parameter \<open>unicodeLower\<close>.
\<close>

definition ToLower :: "(string \<Rightarrow> string) \<Rightarrow> string \<Rightarrow> string" where
  "ToLower unicodeLower s = (if list_all isASCII s then map lowerASCII s else unicodeLower s)"

text \<open>
  \<^verbatim>\<open>strings.TrimSpace\<close> removes every leading and trailing white-space code point
  (\<^verbatim>\<open>unicode.IsSpace\<close>). \<open>whiteSpace\<close> lists the UTF-8 encodings of these code points:
  the six ASCII ones, U+0085, U+00A0, U+1680, U+2000 to U+200A, U+2028, U+2029, U+202F,
  U+205F and U+3000.
\<close>

definition whiteSpace :: "string list" where
  "whiteSpace =
    [[CHR 0x09], [CHR 0x0A], [CHR 0x0B], [CHR 0x0C], [CHR 0x0D], [CHR 0x20],
     [CHR 0xC2, CHR 0x85], [CHR 0xC2, CHR 0xA0],
     [CHR 0xE1, CHR 0x9A, CHR 0x80],
     [CHR 0xE2, CHR 0x80, CHR 0x80], [CHR 0xE2, CHR 0x80, CHR 0x81],
     [CHR 0xE2, CHR 0x80, CHR 0x82], [CHR 0xE2, CHR 0x80, CHR 0x83],
     [CHR 0xE2, CHR 0x80, CHR 0x84], [CHR 0xE2, CHR 0x80, CHR 0x85],
     [CHR 0xE2, CHR 0x80, CHR 0x86], [CHR 0xE2, CHR 0x80, CHR 0x87],
     [CHR 0xE2, CHR 0x80, CHR 0x88], [CHR 0xE2, CHR 0x80, CHR 0x89],
     [CHR 0xE2, CHR 0x80, CHR 0x8A],
     [CHR 0xE2, CHR 0x80, CHR 0xA8], [CHR 0xE2, CHR 0x80, CHR 0xA9],
     [CHR 0xE2, CHR 0x80, CHR 0xAF],
     [CHR 0xE2, CHR 0x81, CHR 0x9F],
     [CHR 0xE3, CHR 0x80, CHR 0x80]]"

definition startsWithSpace :: "string \<Rightarrow> bool" where
  "startsWithSpace s = list_ex (\<lambda>w. prefix w s) whiteSpace"

definition endsWithSpace :: "string \<Rightarrow> bool" where
  "endsWithSpace s = list_ex (\<lambda>w. suffix w s) whiteSpace"

function TrimLeft :: "string \<Rightarrow> string" where
  "TrimLeft s =
     (case find (\<lambda>w. prefix w s) whiteSpace of
        None \<Rightarrow> s
      | Some w \<Rightarrow> TrimLeft (drop (length w) s))"
  by pat_completeness auto
termination
proof (relation "measure length")
  show "wf (measure length)" by simp
next
  fix s w
  assume "find (\<lambda>w. prefix w s) whiteSpace = Some w"
  then have "w \<in> set whiteSpace" and "prefix w s"
    by (auto simp: find_Some_iff)
  then have "w \<noteq> []" and "length w \<le> length s"
    by (auto simp: whiteSpace_def prefix_length_le)
  then show "(drop (length w) s, s) \<in> measure length"
    by (cases w) auto
qed

function TrimRight :: "string \<Rightarrow> string" where
  "TrimRight s =
     (case find (\<lambda>w. suffix w s) whiteSpace of
        None \<Rightarrow> s
      | Some w \<Rightarrow> TrimRight (take (length s - length w) s))"
  by pat_completeness auto
termination
proof (relation "measure length")
  show "wf (measure length)" by simp
next
  fix s w
  assume "find (\<lambda>w. suffix w s) whiteSpace = Some w"
  then have "w \<in> set whiteSpace" and "suffix w s"
    by (auto simp: find_Some_iff)
  then have "w \<noteq> []" and "length w \<le> length s"
    by (auto simp: whiteSpace_def suffix_length_le)
  then show "(take (length s - length w) s, s) \<in> measure length"
    by (cases w) auto
qed

declare TrimLeft.simps [simp del] TrimRight.simps [simp del]

definition TrimSpace :: "string \<Rightarrow> string" where
  "TrimSpace s = TrimRight (TrimLeft s)"

text \<open>\<^verbatim>\<open>strings.Split(s, "/")\<close>: the pieces of \<open>s\<close> between the separators; never empty.\<close>

fun Split :: "string \<Rightarrow> char \<Rightarrow> string list" where
  "Split [] sep = [[]]"
| "Split (c # cs) sep =
     (if c = sep then [] # Split cs sep
      else (case Split cs sep of
              p # ps \<Rightarrow> (c # p) # ps
            | [] \<Rightarrow> [[c]]))"

section \<open>File names: \<^verbatim>\<open>utils.go\<close>\<close>

text \<open>\<^verbatim>\<open>strings.ReplaceAll(s, " ", "_")\<close>.\<close>

definition spacesToUnderscores :: "string \<Rightarrow> string" where
  "spacesToUnderscores s = map (\<lambda>c. if c = CHR '' '' then CHR ''_'' else c) s"

text \<open>
  The character class \<^verbatim>\<open>[a-z0-9_]\<close>. Replacing every match of \<^verbatim>\<open>[^a-z0-9_]+\<close> by the
  empty string keeps exactly the bytes of the class: a byte of the class is a code point
  of its own in UTF-8, and every other code point, as every invalid byte, matches the
  negated class.
\<close>

definition inClass :: "char \<Rightarrow> bool" where
  "inClass c =
     ((CHR ''a'' \<le> c \<and> c \<le> CHR ''z'') \<or> (CHR ''0'' \<le> c \<and> c \<le> CHR ''9'') \<or> c = CHR ''_'')"

definition removeOutsideClass :: "string \<Rightarrow> string" where
  "removeOutsideClass s = filter inClass s"

definition SanitizeFilename :: "(string \<Rightarrow> string) \<Rightarrow> string \<Rightarrow> string" where
  "SanitizeFilename unicodeLower s =
     (let s1 = ToLower unicodeLower s;
          s2 = spacesToUnderscores s1;
          s3 = removeOutsideClass s2
      in s3)"

text \<open>\<^verbatim>\<open>%d\<close> of \<^verbatim>\<open>fmt\<close>: an integer in decimal.\<close>

fun showNat :: "nat \<Rightarrow> string" where
  "showNat n =
     (if n < 10 then [char_of (48 + n)]
      else showNat (n div 10) @ [char_of (48 + n mod 10)])"

declare showNat.simps [simp del]

definition showInt :: "int \<Rightarrow> string" where
  "showInt i = (if i < 0 then ''-'' @ showNat (nat (- i)) else showNat (nat i))"

section \<open>Parsed HTML: \<^verbatim>\<open>html.Node\<close> and the \<^verbatim>\<open>goquery\<close> operations\<close>

text \<open>
  A parsed document is a tree of \<^verbatim>\<open>html.Node\<close> values: the node's type, its data (the tag
  name of an element, lower-cased by the parser; the text of a text node), its attributes
  in source order, and its children. A \<^verbatim>\<open>goquery.Selection\<close> is the list of its nodes.
\<close>

datatype NodeType = ErrorNode | TextNode | DocumentNode | ElementNode | CommentNode | DoctypeNode

datatype Node = Node (Type: NodeType) (Data: string) (Attr: "(string \<times> string) list")
  (Children: "Node list")

text \<open>\<^verbatim>\<open>Selection.Text\<close>: the data of every text node below the selection, in document order.\<close>

fun nodeText :: "Node \<Rightarrow> string" where
  "nodeText (Node t d a cs) = (if t = TextNode then d else []) @ concat (map nodeText cs)"

definition Text :: "Node list \<Rightarrow> string" where
  "Text nodes = concat (map nodeText nodes)"

text \<open>\<^verbatim>\<open>Selector.MatchAll\<close>: the node itself and its descendants that match, in pre-order.\<close>

fun MatchAll :: "(Node \<Rightarrow> bool) \<Rightarrow> Node \<Rightarrow> Node list" where
  "MatchAll m (Node t d a cs) =
     (if m (Node t d a cs) then [Node t d a cs] else []) @ concat (map (MatchAll m) cs)"

text \<open>
  \<^verbatim>\<open>Selection.Find\<close> with a compiled matcher: the matches below the element children of
  each node of the selection. The selections it is applied to here (the document root,
  the \<^verbatim>\<open>body\<close> element of a parsed document) hold no node twice and no node inside
  another, so the removal of duplicates that goquery performs changes nothing.
\<close>

definition findWithMatcher :: "Node list \<Rightarrow> (Node \<Rightarrow> bool) \<Rightarrow> Node list" where
  "findWithMatcher nodes m =
     concat (map (\<lambda>n. concat (map (MatchAll m)
                         (filter (\<lambda>c. Type c = ElementNode) (Children n)))) nodes)"

text \<open>The selectors that the converter writes as literals.\<close>

definition tagSelector :: "string \<Rightarrow> Node \<Rightarrow> bool" where
  "tagSelector tag n = (Type n = ElementNode \<and> Data n = tag)"

definition attrEquals :: "string \<Rightarrow> string \<Rightarrow> Node \<Rightarrow> bool" where
  "attrEquals key val n =
     (Type n = ElementNode \<and> list_ex (\<lambda>(k, v). k = key \<and> v = val) (Attr n))"

definition metaNamed :: "string \<Rightarrow> Node \<Rightarrow> bool" where
  \<comment> \<open>\<^verbatim>\<open>meta[name='...']\<close>\<close>
  "metaNamed val n = (tagSelector ''meta'' n \<and> attrEquals ''name'' val n)"

definition markdownTags :: "Node \<Rightarrow> bool" where
  \<comment> \<open>\<^verbatim>\<open>h1, h2, h3, h4, h5, h6, p, a\<close>\<close>
  "markdownTags n =
     list_ex (\<lambda>tag. tagSelector tag n) [''h1'', ''h2'', ''h3'', ''h4'', ''h5'', ''h6'', ''p'', ''a'']"

text \<open>\<^verbatim>\<open>Selection.Attr\<close> on a selection of one node: the first attribute with that key.\<close>

definition AttrOf :: "Node \<Rightarrow> string \<Rightarrow> string option" where
  "AttrOf n attrName = map_of (Attr n) attrName"

text \<open>\<^verbatim>\<open>goquery.NodeName\<close> of a selection of one node.\<close>

definition NodeName :: "Node \<Rightarrow> string" where
  "NodeName n =
     (case Type n of
        ElementNode \<Rightarrow> Data n
      | DoctypeNode \<Rightarrow> Data n
      | ErrorNode \<Rightarrow> ''#error''
      | TextNode \<Rightarrow> ''#text''
      | DocumentNode \<Rightarrow> ''#document''
      | CommentNode \<Rightarrow> ''#comment'')"

section \<open>What the converter takes from libraries and from the outside world\<close>

text \<open>
  Library functions whose code is not in the repository are parameters of the model:
  the Unicode branch of \<^verbatim>\<open>strings.ToLower\<close>, the HTML parser behind
  \<^verbatim>\<open>goquery.NewDocumentFromReader\<close>, the CSS selector engine for the caller's selector
  (\<^verbatim>\<open>doc.Find(selector)\<close>), \<^verbatim>\<open>Selection.Html\<close>, \<^verbatim>\<open>yaml.Marshal\<close> and \<^verbatim>\<open>filepath.Join\<close>.
  A Go \<^verbatim>\<open>error\<close> is modelled by its message, on the left of a sum.
\<close>

record lib =
  unicodeLower :: "string \<Rightarrow> string"
  NewDocumentFromReader :: "string \<Rightarrow> string + Node"
  Find :: "Node \<Rightarrow> string \<Rightarrow> Node list"
  Html :: "Node list \<Rightarrow> string + string"
  yaml_Marshal :: "(string \<rightharpoonup> string) \<Rightarrow> string + string"
  filepath_Join :: "string \<Rightarrow> string \<Rightarrow> string"

text \<open>
  An address returned by the resolver, as the four tests of \<^verbatim>\<open>net.IP\<close> that the
  validator asks of it.
\<close>

record IP =
  IsLoopback :: bool
  IsLinkLocalMulticast :: bool
  IsLinkLocalUnicast :: bool
  IsPrivate :: bool

record Response =
  StatusCode :: int
  Body :: string

text \<open>
  What the outside world answers to one worker: the parse of the URL (its host name),
  the resolver, the worker's first and second \<^verbatim>\<open>Client.Get\<close>, the clock
  (\<^verbatim>\<open>time.Now().Format(time.RFC3339)\<close>) and \<^verbatim>\<open>os.WriteFile\<close> (its error, if any).
\<close>

record world =
  url_Parse :: "string \<Rightarrow> string + string"
  net_LookupIP :: "string \<Rightarrow> string + IP list"
  Client_Get_first :: "string \<Rightarrow> string + Response"
  Client_Get_second :: "string \<Rightarrow> string + Response"
  time_Now :: string
  os_WriteFile :: "string \<Rightarrow> string \<Rightarrow> string option"

section \<open>The converter: \<^verbatim>\<open>converter.go\<close>\<close>

definition maxBodySize :: int where
  "maxBodySize = 5 * 1024 * 1024"

record Result =
  URL :: string
  FileName :: string
  Content :: string
  Error :: string
  IsSuccess :: bool

record Summary =
  TotalURLs :: int
  Successful :: int
  Failed :: int
  FailedURLs :: "string list"
  ProcessingTime :: string
  DownloadID :: string

record Converter =
  OutputDir :: string
  ConverterDownloadID :: string

text \<open>
  \<^verbatim>\<open>goquery.NewDocumentFromReader(http.MaxBytesReader(nil, resp.Body, maxBodySize))\<close>:
  reading past the cap is an error, which the parser returns.
\<close>

definition readDocument :: "lib \<Rightarrow> string \<Rightarrow> string + Node" where
  "readDocument L body =
     (if maxBodySize < int (length body) then Inl ''http: request body too large''
      else NewDocumentFromReader L body)"

subsection \<open>\<^verbatim>\<open>isPublicURL\<close>\<close>

text \<open>
  The validator of the default build. Under the build tag \<^verbatim>\<open>integration\<close> it is replaced by
  a mock that accepts every URL; the mock is not modelled.
\<close>

fun allPublic :: "IP list \<Rightarrow> bool" where
  "allPublic [] = True"
| "allPublic (ip # ips) =
     (if IsLoopback ip \<or> IsLinkLocalMulticast ip \<or> IsLinkLocalUnicast ip \<or> IsPrivate ip
      then False
      else allPublic ips)"

definition isPublicURL :: "world \<Rightarrow> string \<Rightarrow> string + bool" where
  "isPublicURL W urlStr =
     (case url_Parse W urlStr of
        Inl err \<Rightarrow> Inl err
      | Inr hostname \<Rightarrow>
          (case net_LookupIP W hostname of
             Inl err \<Rightarrow> Inl err
           | Inr ips \<Rightarrow> Inr (allPublic ips)))"

subsection \<open>\<^verbatim>\<open>processURL\<close>\<close>

datatype event = HttpGet string | WriteFile string string

definition processURL :: "lib \<Rightarrow> world \<Rightarrow> string \<Rightarrow> string \<Rightarrow> (string + string) \<times> event list" where
  "processURL L W urlStr selector =
     (case Client_Get_first W urlStr of
        Inl err \<Rightarrow> (Inl (''failed to fetch URL '' @ urlStr @ '': '' @ err), [HttpGet urlStr])
      | Inr resp \<Rightarrow>
          if StatusCode resp \<noteq> 200
          then (Inl (''failed to fetch URL '' @ urlStr @ '': HTTP status '' @ showInt (StatusCode resp)),
                [HttpGet urlStr])
          else (case readDocument L (Body resp) of
                  Inl err \<Rightarrow> (Inl (''failed to read HTML for '' @ urlStr @ '': '' @ err), [HttpGet urlStr])
                | Inr doc \<Rightarrow>
                    (let content = Find L doc selector in
                     if length content = 0
                     then (Inl (''could not find content in '' @ urlStr @ '' using selector '' @ [CHR 0x27]
                                @ selector @ [CHR 0x27]),
                           [HttpGet urlStr])
                     else (case Html L content of
                             Inl err \<Rightarrow>
                               (Inl (''failed to get HTML content for selector '' @ [CHR 0x27] @ selector
                                     @ [CHR 0x27] @ '': '' @ err),
                                [HttpGet urlStr])
                           | Inr htmlContent \<Rightarrow> (Inr htmlContent, [HttpGet urlStr])))))"

subsection \<open>\<^verbatim>\<open>getSanitizedTitle\<close> and \<^verbatim>\<open>getMetadata\<close>\<close>

definition getSanitizedTitle :: "lib \<Rightarrow> Node \<Rightarrow> string \<Rightarrow> string" where
  "getSanitizedTitle L doc fallbackURL =
     (let title = TrimSpace (Text (findWithMatcher [doc] (tagSelector ''title'')));
          title =
            (if title = [] then
               (let parts = Split fallbackURL (CHR ''/'');
                    title =
                      (if length parts > 0 then
                         (let t = parts ! (length parts - 1)
                          in if t = [] \<and> length parts > 1 then parts ! (length parts - 2) else t)
                       else title)
                in if title = [] then ''untitled'' else title)
             else title)
      in SanitizeFilename (unicodeLower L) title)"

definition setFromContent :: "string \<Rightarrow> (string \<rightharpoonup> string) \<Rightarrow> Node \<Rightarrow> (string \<rightharpoonup> string)" where
  \<comment> \<open>the body of the two \<^verbatim>\<open>Each\<close> callbacks\<close>
  "setFromContent key metadata s =
     (case AttrOf s ''content'' of
        Some v \<Rightarrow> metadata(key \<mapsto> v)
      | None \<Rightarrow> metadata)"

definition getMetadata :: "Node \<Rightarrow> string \<Rightarrow> (string \<rightharpoonup> string)" where
  "getMetadata doc url =
     (let metadata = Map.empty;
          metadata = metadata(''source'' \<mapsto> url);
          title = TrimSpace (Text (findWithMatcher [doc] (tagSelector ''title'')));
          metadata = (if title \<noteq> [] then metadata(''title'' \<mapsto> title) else metadata);
          metadata = foldl (setFromContent ''description'') metadata
                       (findWithMatcher [doc] (metaNamed ''description''));
          metadata = foldl (setFromContent ''keywords'') metadata
                       (findWithMatcher [doc] (metaNamed ''keywords''))
      in metadata)"

subsection \<open>\<^verbatim>\<open>htmlToMarkdown\<close>\<close>

text \<open>The callback of \<^verbatim>\<open>Each\<close>: what one matched element appends to the builder.\<close>

definition renderElement :: "Node \<Rightarrow> string" where
  "renderElement s =
     (let tagName = NodeName s;
          text = TrimSpace (Text [s])
      in if text = [] then []
         else if tagName = ''h1'' then ''# '' @ text @ ''\<newline>\<newline>''
         else if tagName = ''h2'' then ''## '' @ text @ ''\<newline>\<newline>''
         else if tagName = ''h3'' then ''### '' @ text @ ''\<newline>\<newline>''
         else if tagName = ''h4'' then ''#### '' @ text @ ''\<newline>\<newline>''
         else if tagName = ''h5'' then ''##### '' @ text @ ''\<newline>\<newline>''
         else if tagName = ''h6'' then ''###### '' @ text @ ''\<newline>\<newline>''
         else if tagName = ''p'' then text @ ''\<newline>\<newline>''
         else if tagName = ''a'' then
           (case AttrOf s ''href'' of
              Some href \<Rightarrow> ''['' @ text @ '']('' @ href @ '')''
            | None \<Rightarrow> text)
         else [])"

text \<open>
  \<^verbatim>\<open>regexp.MustCompile(`\n\n+`).ReplaceAllString(s, "\n\n")\<close>: scanning from the left,
  each maximal run of two or more newlines becomes two newlines.
\<close>

function collapseNewlines :: "string \<Rightarrow> string" where
  "collapseNewlines [] = []"
| "collapseNewlines [a] = [a]"
| "collapseNewlines (a # b # cs) =
     (if a = CHR 0x0A \<and> b = CHR 0x0A
      then CHR 0x0A # CHR 0x0A # collapseNewlines (dropWhile (\<lambda>c. c = CHR 0x0A) cs)
      else a # collapseNewlines (b # cs))"
  by pat_completeness auto
termination
proof (relation "measure length")
  show "wf (measure length)" by simp
next
  fix a b :: char and cs :: string
  have "length (dropWhile (\<lambda>c. c = CHR 0x0A) cs) \<le> length cs"
    by (rule length_dropWhile_le)
  then show "(dropWhile (\<lambda>c. c = CHR 0x0A) cs, a # b # cs) \<in> measure length"
    by simp
next
  fix a b :: char and cs :: string
  show "(b # cs, a # b # cs) \<in> measure length" by simp
qed

fun startsWithNewline :: "string \<Rightarrow> bool" where
  "startsWithNewline [] = False"
| "startsWithNewline (c # cs) = (c = CHR 0x0A)"

text \<open>The conversion of a parsed fragment: all of \<^verbatim>\<open>htmlToMarkdown\<close> after the parse.\<close>

definition markdownOfDocument :: "Node \<Rightarrow> string" where
  "markdownOfDocument doc =
     (let body = findWithMatcher [doc] (tagSelector ''body'');
          selection = (if length body > 0 then body else [doc]);
          markdownBuilder = concat (map renderElement (findWithMatcher selection markdownTags));
          markdownBuilder =
            (if length markdownBuilder = 0 then
               (let text = TrimSpace (Text selection)
                in if text \<noteq> [] then markdownBuilder @ text else markdownBuilder)
             else markdownBuilder);
          result = collapseNewlines markdownBuilder
      in TrimSpace result)"

definition htmlToMarkdown :: "lib \<Rightarrow> string \<Rightarrow> string" where
  "htmlToMarkdown L htmlContent =
     (case NewDocumentFromReader L htmlContent of
        Inl err \<Rightarrow> []
      | Inr doc \<Rightarrow> markdownOfDocument doc)"

subsection \<open>\<^verbatim>\<open>Convert\<close>\<close>

text \<open>
  The variables that the workers of one run share. Every access is between \<^verbatim>\<open>mu.Lock()\<close>
  and \<^verbatim>\<open>mu.Unlock()\<close>, and a worker enters this critical section once, so a worker acts on
  them as one atomic step. The counters are Go \<^verbatim>\<open>int\<close>s that count workers of a slice held
  in memory, so they stay far below the 64-bit limit and are modelled by \<^typ>\<open>int\<close>.
\<close>

record shared =
  successCount :: int
  errorCount :: int
  failedURLs :: "string list"

definition recordFailure :: "shared \<Rightarrow> string \<Rightarrow> shared" where
  \<comment> \<open>\<^verbatim>\<open>errorCount++; failedURLs = append(failedURLs, u)\<close>\<close>
  "recordFailure sh u = sh\<lparr>errorCount := errorCount sh + 1, failedURLs := failedURLs sh @ [u]\<rparr>"

definition recordSuccess :: "shared \<Rightarrow> shared" where
  \<comment> \<open>\<^verbatim>\<open>successCount++\<close>\<close>
  "recordSuccess sh = sh\<lparr>successCount := successCount sh + 1\<rparr>"

definition failure :: "string \<Rightarrow> string \<Rightarrow> Result" where
  \<comment> \<open>\<^verbatim>\<open>Result{URL: u, Error: msg, IsSuccess: false}\<close>\<close>
  "failure u msg = \<lparr>URL = u, FileName = [], Content = [], Error = msg, IsSuccess = False\<rparr>"

text \<open>
  The body of the goroutine started for one URL: the shared variables after its critical
  section, the \<^verbatim>\<open>Result\<close> it sends, and the requests and writes it has performed, in order.
  Log lines are left out.
\<close>

definition worker ::
  "lib \<Rightarrow> Converter \<Rightarrow> world \<Rightarrow> string \<Rightarrow> string \<Rightarrow> shared \<Rightarrow> shared \<times> Result \<times> event list" where
  "worker L c W selector u sh =
     (case isPublicURL W u of
        Inl err \<Rightarrow> (recordFailure sh u, failure u (''URL validation failed: '' @ err), [])
      | Inr isPublic \<Rightarrow>
          if \<not> isPublic
          then (recordFailure sh u,
                failure u ''SSRF attack suspected: URL resolves to a non-public IP'', [])
          else
            (case processURL L W u selector of
               (Inl err, ev) \<Rightarrow> (recordFailure sh u, failure u err, ev)
             | (Inr content, ev) \<Rightarrow>
                 (case Client_Get_second W u of
                    Inl err \<Rightarrow>
                      (recordFailure sh u,
                       failure u (''failed to fetch URL for metadata: '' @ err),
                       ev @ [HttpGet u])
                  | Inr resp \<Rightarrow>
                      (case readDocument L (Body resp) of
                         Inl err \<Rightarrow>
                           (recordFailure sh u,
                            failure u (''failed to parse HTML for metadata: '' @ err),
                            ev @ [HttpGet u])
                       | Inr doc \<Rightarrow>
                           (let pageMetadata = getMetadata doc u;
                                pageMetadata = pageMetadata(''retrieved_at'' \<mapsto> time_Now W);
                                markdownContent = htmlToMarkdown L content
                            in case yaml_Marshal L pageMetadata of
                                 Inl err \<Rightarrow>
                                   (recordFailure sh u,
                                    failure u (''failed to marshal YAML: '' @ err),
                                    ev @ [HttpGet u])
                               | Inr yamlBytes \<Rightarrow>
                                   (let finalContent =
                                          ''---\<newline>'' @ yamlBytes @ ''---\<newline>\<newline>'' @ markdownContent;
                                        filename = getSanitizedTitle L doc u @ ''.md'';
                                        filePath = filepath_Join L (OutputDir c) filename
                                    in case os_WriteFile W filePath finalContent of
                                         Some err \<Rightarrow>
                                           (recordFailure sh u,
                                            failure u (''failed to write file: '' @ err),
                                            ev @ [HttpGet u, WriteFile filePath finalContent])
                                       | None \<Rightarrow>
                                           (recordSuccess sh,
                                            \<lparr>URL = u, FileName = filename, Content = finalContent,
                                             Error = [], IsSuccess = True\<rparr>,
                                            ev @ [HttpGet u, WriteFile filePath finalContent])))))))"

text \<open>
  A run of \<^verbatim>\<open>Convert\<close>. Worker \<open>i\<close> handles \<open>urls ! i\<close> in the world \<open>W i\<close>. The goroutines
  run concurrently; \<open>sched\<close> is the order in which they pass the critical section, any
  enumeration of the worker indices. \<open>runWorkers\<close> gives the shared variables and the
  results sent once every worker is done (\<^verbatim>\<open>wg.Wait()\<close>); the run then closes the result
  stream and builds the \<^verbatim>\<open>Summary\<close>. The stream is listed in the order of \<open>sched\<close> (the
  sends may happen in another order; nothing below depends on it).
\<close>

definition noShared :: shared where
  \<comment> \<open>\<^verbatim>\<open>var successCount, errorCount int; var failedURLs []string\<close>\<close>
  "noShared = \<lparr>successCount = 0, errorCount = 0, failedURLs = []\<rparr>"

definition runWorker ::
  "lib \<Rightarrow> Converter \<Rightarrow> (nat \<Rightarrow> world) \<Rightarrow> string list \<Rightarrow> string
    \<Rightarrow> shared \<times> Result list \<Rightarrow> nat \<Rightarrow> shared \<times> Result list" where
  "runWorker L c W urls selector st i =
     (case st of (sh, results) \<Rightarrow>
        (case worker L c (W i) selector (urls ! i) sh of
           (sh', r, ev) \<Rightarrow> (sh', results @ [r])))"

definition runWorkers ::
  "lib \<Rightarrow> Converter \<Rightarrow> (nat \<Rightarrow> world) \<Rightarrow> string list \<Rightarrow> string \<Rightarrow> nat list
    \<Rightarrow> shared \<times> Result list" where
  "runWorkers L c W urls selector sched =
     foldl (runWorker L c W urls selector) (noShared, []) sched"

definition validSchedule :: "string list \<Rightarrow> nat list \<Rightarrow> bool" where
  "validSchedule urls sched = (distinct sched \<and> set sched = {0..<length urls})"

definition Convert ::
  "lib \<Rightarrow> Converter \<Rightarrow> (nat \<Rightarrow> world) \<Rightarrow> string \<Rightarrow> string list \<Rightarrow> string \<Rightarrow> nat list
    \<Rightarrow> Result list \<times> Summary" where
  "Convert L c W elapsed urls selector sched =
     (case runWorkers L c W urls selector sched of
        (sh, results) \<Rightarrow>
          (results,
           \<lparr>TotalURLs = int (length urls),
            Successful = successCount sh,
            Failed = errorCount sh,
            FailedURLs = failedURLs sh,
            ProcessingTime = elapsed,
            DownloadID = ConverterDownloadID c\<rparr>))"

section \<open>Concrete inputs\<close>

text \<open>
  The fragment of the rendering example and its parse tree: the HTML parser wraps a
  fragment in \<^verbatim>\<open>html\<close>, \<^verbatim>\<open>head\<close> and \<^verbatim>\<open>body\<close> elements.
\<close>

definition fragment :: string where
  \<open>fragment = ''<h1>Title</h1><p>Body <a href="https://x">link</a></p>''\<close>

definition document :: "Node list \<Rightarrow> Node list \<Rightarrow> Node" where
  "document headNodes bodyNodes =
     Node DocumentNode [] []
       [Node ElementNode ''html'' []
          [Node ElementNode ''head'' [] headNodes, Node ElementNode ''body'' [] bodyNodes]]"

definition textNode :: "string \<Rightarrow> Node" where
  "textNode s = Node TextNode s [] []"

definition fragmentDoc :: Node where
  "fragmentDoc =
     document []
       [Node ElementNode ''h1'' [] [textNode ''Title''],
        Node ElementNode ''p'' []
          [textNode ''Body '',
           Node ElementNode ''a'' [(''href'', ''https://x'')] [textNode ''link'']]]"

text \<open>A page with a title and a description, and the page of a 404 answer.\<close>

definition pageBody :: string where
  \<open>pageBody = ''<html><head><title>My Page</title><meta name="description" content="A page"></head><body><main><p>Hello</p></main></body></html>''\<close>

definition pageDoc :: Node where
  "pageDoc =
     document
       [Node ElementNode ''title'' [] [textNode ''My Page''],
        Node ElementNode ''meta'' [(''name'', ''description''), (''content'', ''A page'')] []]
       [Node ElementNode ''main'' [] [Node ElementNode ''p'' [] [textNode ''Hello'']]]"

definition notFoundBody :: string where
  \<open>notFoundBody = ''<html><head><title>Not Found</title></head><body><p>no such page</p></body></html>''\<close>

definition notFoundDoc :: Node where
  "notFoundDoc =
     document [Node ElementNode ''title'' [] [textNode ''Not Found'']]
       [Node ElementNode ''p'' [] [textNode ''no such page'']]"

definition mainHtml :: string where
  "mainHtml = ''<p>Hello</p>''"

definition mainDoc :: Node where
  "mainDoc = document [] [Node ElementNode ''p'' [] [textNode ''Hello'']]"

text \<open>A page without \<^verbatim>\<open>title\<close> element, and a page whose title is \<open>t\<close>.\<close>

definition untitledDoc :: Node where
  "untitledDoc = document [] [Node ElementNode ''p'' [] [textNode ''Hello'']]"

definition titledDoc :: "string \<Rightarrow> Node" where
  "titledDoc t = document [Node ElementNode ''title'' [] [textNode t]] []"

text \<open>
  Stand-ins for the library parameters, enough to run the examples: a parser that knows
  the parse trees of the four inputs above, a selector engine for selectors that are a
  tag name, the serialisation of the \<^verbatim>\<open>main\<close> element of \<open>pageDoc\<close>, and a serialiser that
  writes the keys of the metadata in alphabetical order, one per line.
\<close>

definition exampleParser :: "string \<Rightarrow> string + Node" where
  "exampleParser s =
     (case map_of [(fragment, fragmentDoc), (pageBody, pageDoc), (notFoundBody, notFoundDoc),
                   (mainHtml, mainDoc)] s of
        Some d \<Rightarrow> Inr d
      | None \<Rightarrow> Inr (document [] []))"

definition exampleYaml :: "(string \<rightharpoonup> string) \<Rightarrow> string + string" where
  "exampleYaml m =
     Inr (concat (map (\<lambda>k. case m k of Some v \<Rightarrow> k @ '': '' @ v @ ''\<newline>'' | None \<Rightarrow> [])
                    [''description'', ''keywords'', ''retrieved_at'', ''source'', ''title'']))"

definition exampleLib :: lib where
  "exampleLib =
     \<lparr>unicodeLower = (\<lambda>s. s),
      NewDocumentFromReader = exampleParser,
      Find = (\<lambda>doc sel. findWithMatcher [doc] (tagSelector sel)),
      Html = (\<lambda>nodes. Inr mainHtml),
      yaml_Marshal = exampleYaml,
      filepath_Join = (\<lambda>dir name. dir @ ''/'' @ name)\<rparr>"

definition exampleConverter :: Converter where
  "exampleConverter = \<lparr>OutputDir = ''out'', ConverterDownloadID = ''job-1''\<rparr>"

definition publicIP :: IP where
  "publicIP = \<lparr>IsLoopback = False, IsLinkLocalMulticast = False, IsLinkLocalUnicast = False,
               IsPrivate = False\<rparr>"

definition privateIP :: IP where
  "privateIP = \<lparr>IsLoopback = False, IsLinkLocalMulticast = False, IsLinkLocalUnicast = False,
                IsPrivate = True\<rparr>"

text \<open>
  A world in which the URL names \<open>host\<close>, which resolves to \<open>ips\<close>, the first request is answered by \<open>r1\<close> and
  the second by \<open>r2\<close>, and the file system accepts every write.
\<close>

definition exampleWorld :: "string \<Rightarrow> IP list \<Rightarrow> Response \<Rightarrow> Response \<Rightarrow> world" where
  "exampleWorld host ips r1 r2 =
     \<lparr>url_Parse = (\<lambda>u. Inr host),
      net_LookupIP = (\<lambda>h. Inr ips),
      Client_Get_first = (\<lambda>u. Inr r1),
      Client_Get_second = (\<lambda>u. Inr r2),
      time_Now = ''2024-01-01T00:00:00Z'',
      os_WriteFile = (\<lambda>path content. None)\<rparr>"

text \<open>
  Three workers: the first converts its page, the host of the second resolves to a public
  and a private address, the third is answered with status 500.
\<close>

definition exampleUrls :: "string list" where
  "exampleUrls = [''https://example.com/page'', ''https://intranet.example.com/'',
                  ''https://example.com/broken'']"

definition exampleWorlds :: "nat \<Rightarrow> world" where
  "exampleWorlds i =
     (if i = 0 then
        exampleWorld ''example.com'' [publicIP] \<lparr>StatusCode = 200, Body = pageBody\<rparr>
          \<lparr>StatusCode = 200, Body = pageBody\<rparr>
      else if i = 1 then
        exampleWorld ''intranet.example.com'' [publicIP, privateIP] \<lparr>StatusCode = 200, Body = pageBody\<rparr>
          \<lparr>StatusCode = 200, Body = pageBody\<rparr>
      else
        exampleWorld ''example.com'' [publicIP] \<lparr>StatusCode = 500, Body = notFoundBody\<rparr>
          \<lparr>StatusCode = 500, Body = notFoundBody\<rparr>)"

definition exampleSchedule :: "nat list" where
  "exampleSchedule = [2, 0, 1]"

definition exampleRun :: "Result list \<times> Summary" where
  "exampleRun =
     Convert exampleLib exampleConverter exampleWorlds ''12ms'' exampleUrls ''main'' exampleSchedule"

text \<open>
  The world of a worker whose first request is answered with status 200 and whose second
  request, for the metadata, with status 404.
\<close>

definition secondFetch404 :: world where
  "secondFetch404 =
     exampleWorld ''example.com'' [publicIP] \<lparr>StatusCode = 200, Body = pageBody\<rparr>
       \<lparr>StatusCode = 404, Body = notFoundBody\<rparr>"

section \<open>Properties of the string functions\<close>

lemma TrimLeft_suffix: "suffix (TrimLeft s) s"
proof (induction s rule: TrimLeft.induct)
  case (1 s)
  show ?case
  proof (cases "find (\<lambda>w. prefix w s) whiteSpace")
    case None
    then show ?thesis by (simp add: TrimLeft.simps [of s])
  next
    case (Some w)
    then have "suffix (TrimLeft (drop (length w) s)) (drop (length w) s)"
      using "1.IH" by simp
    moreover have "suffix (drop (length w) s) s"
      by (rule suffix_drop)
    ultimately have "suffix (TrimLeft (drop (length w) s)) s"
      by (rule suffix_order.trans)
    then show ?thesis using Some by (simp add: TrimLeft.simps [of s])
  qed
qed

lemma TrimLeft_no_space: "\<not> startsWithSpace (TrimLeft s)"
proof (induction s rule: TrimLeft.induct)
  case (1 s)
  show ?case
  proof (cases "find (\<lambda>w. prefix w s) whiteSpace")
    case None
    then have "\<not> list_ex (\<lambda>w. prefix w s) whiteSpace"
      by (simp add: find_None_iff list_ex_iff)
    then show ?thesis using None by (simp add: TrimLeft.simps [of s] startsWithSpace_def)
  next
    case (Some w)
    then show ?thesis using "1.IH" by (simp add: TrimLeft.simps [of s])
  qed
qed

lemma TrimRight_prefix: "prefix (TrimRight s) s"
proof (induction s rule: TrimRight.induct)
  case (1 s)
  show ?case
  proof (cases "find (\<lambda>w. suffix w s) whiteSpace")
    case None
    then show ?thesis by (simp add: TrimRight.simps [of s])
  next
    case (Some w)
    then have "prefix (TrimRight (take (length s - length w) s)) (take (length s - length w) s)"
      using "1.IH" by simp
    moreover have "prefix (take (length s - length w) s) s"
      by (rule take_is_prefix)
    ultimately have "prefix (TrimRight (take (length s - length w) s)) s"
      by (rule prefix_order.trans)
    then show ?thesis using Some by (simp add: TrimRight.simps [of s])
  qed
qed

lemma TrimRight_no_space: "\<not> endsWithSpace (TrimRight s)"
proof (induction s rule: TrimRight.induct)
  case (1 s)
  show ?case
  proof (cases "find (\<lambda>w. suffix w s) whiteSpace")
    case None
    then have "\<not> list_ex (\<lambda>w. suffix w s) whiteSpace"
      by (simp add: find_None_iff list_ex_iff)
    then show ?thesis using None by (simp add: TrimRight.simps [of s] endsWithSpace_def)
  next
    case (Some w)
    then show ?thesis using "1.IH" by (simp add: TrimRight.simps [of s])
  qed
qed

lemma startsWithSpace_prefix: "prefix p t \<Longrightarrow> startsWithSpace p \<Longrightarrow> startsWithSpace t"
  unfolding startsWithSpace_def list_ex_iff
  by (meson prefix_order.trans)

lemma TrimSpace_trimmed: "\<not> startsWithSpace (TrimSpace s) \<and> \<not> endsWithSpace (TrimSpace s)"
  unfolding TrimSpace_def
  using TrimRight_no_space TrimLeft_no_space startsWithSpace_prefix [OF TrimRight_prefix]
  by blast

lemma TrimSpace_sublist: "sublist (TrimSpace s) s"
proof -
  have "sublist (TrimRight (TrimLeft s)) (TrimLeft s)"
    by (rule prefix_imp_sublist [OF TrimRight_prefix])
  moreover have "sublist (TrimLeft s) s"
    by (rule suffix_imp_sublist [OF TrimLeft_suffix])
  ultimately show ?thesis
    unfolding TrimSpace_def by (rule sublist_order.order.trans)
qed

lemma collapseNewlines_starts: "startsWithNewline (collapseNewlines s) = startsWithNewline s"
  by (induction s rule: collapseNewlines.induct) auto

lemma dropWhile_newline_starts: "\<not> startsWithNewline (dropWhile (\<lambda>c. c = CHR 0x0A) cs)"
  by (induction cs) auto

lemma collapseNewlines_no_triple:
  "\<not> sublist [CHR 0x0A, CHR 0x0A, CHR 0x0A] (collapseNewlines s)"
proof (induction s rule: collapseNewlines.induct)
  case 1
  then show ?case by simp
next
  case (2 a)
  then show ?case by (simp add: sublist_Cons_right)
next
  case (3 a b cs)
  show ?case
  proof (cases "a = CHR 0x0A \<and> b = CHR 0x0A")
    case True
    let ?r = "collapseNewlines (dropWhile (\<lambda>c. c = CHR 0x0A) cs)"
    have ih: "\<not> sublist [CHR 0x0A, CHR 0x0A, CHR 0x0A] ?r"
      using 3 True by simp
    have ns: "\<not> startsWithNewline ?r"
      by (simp add: collapseNewlines_starts dropWhile_newline_starts)
    have "\<not> sublist [CHR 0x0A, CHR 0x0A, CHR 0x0A] (CHR 0x0A # CHR 0x0A # ?r)"
      using ih ns by (cases ?r) (auto simp: sublist_Cons_right)
    then show ?thesis using True by simp
  next
    case False
    let ?r = "collapseNewlines (b # cs)"
    have ih: "\<not> sublist [CHR 0x0A, CHR 0x0A, CHR 0x0A] ?r"
      using 3 False by simp
    have st: "startsWithNewline ?r = (b = CHR 0x0A)"
      by (simp add: collapseNewlines_starts)
    have "\<not> sublist [CHR 0x0A, CHR 0x0A, CHR 0x0A] (a # ?r)"
    proof (cases ?r)
      case Nil
      then show ?thesis by (simp add: sublist_Cons_right)
    next
      case (Cons x xs)
      with st have x: "(x = CHR 0x0A) = (b = CHR 0x0A)" by simp
      show ?thesis using ih Cons x False by (auto simp: sublist_Cons_right)
    qed
    then show ?thesis using False by auto
  qed
qed

lemma sublist_middle: "sublist x (p @ x @ s)"
  by (auto simp: sublist_def)

lemma sublist_middle2: "sublist y (p @ x @ q @ r @ y @ s)"
  using sublist_middle [of y "p @ x @ q @ r" s] by simp

lemma inClass_isASCII: "inClass c \<Longrightarrow> isASCII c"
  by (auto simp: inClass_def isASCII_def less_eq_char_def less_char_def)

lemma inClass_not_upper: "inClass c \<Longrightarrow> \<not> isUpperASCII c"
  by (auto simp: inClass_def isUpperASCII_def less_eq_char_def)

lemma inClass_not_space: "inClass c \<Longrightarrow> c \<noteq> CHR '' ''"
  by (auto simp: inClass_def less_eq_char_def)

lemma ToLower_inClass: "list_all inClass t \<Longrightarrow> ToLower f t = t"
proof -
  assume a: "list_all inClass t"
  then have "list_all isASCII t"
    by (auto simp: list_all_iff inClass_isASCII)
  moreover have "map lowerASCII t = t"
    using a by (induction t) (auto simp: lowerASCII_def inClass_not_upper)
  ultimately show ?thesis
    by (simp add: ToLower_def)
qed

lemma spacesToUnderscores_inClass: "list_all inClass t \<Longrightarrow> spacesToUnderscores t = t"
  by (induction t) (auto simp: spacesToUnderscores_def inClass_not_space)

lemma SanitizeFilename_fixed: "list_all inClass t \<Longrightarrow> SanitizeFilename f t = t"
  by (simp add: SanitizeFilename_def ToLower_inClass spacesToUnderscores_inClass
      removeOutsideClass_def list_all_iff)

lemma SanitizeFilename_inClass: "list_all inClass (SanitizeFilename f s)"
  by (simp add: SanitizeFilename_def removeOutsideClass_def list_all_iff)

section \<open>Properties of the workers\<close>

lemma allPublic_iff:
  "allPublic ips =
     (\<not> list_ex (\<lambda>ip. IsLoopback ip \<or> IsLinkLocalMulticast ip \<or> IsLinkLocalUnicast ip \<or> IsPrivate ip) ips)"
  by (induction ips) auto

lemma processURL_events: "snd (processURL L W u selector) = [HttpGet u]"
  by (simp add: processURL_def Let_def split: sum.splits)

lemma worker_cases:
  "worker L c W selector u sh = (sh', r, ev) \<Longrightarrow>
     URL r = u \<and>
     ((IsSuccess r \<and> sh' = recordSuccess sh) \<or> (\<not> IsSuccess r \<and> sh' = recordFailure sh u))"
  by (auto simp: worker_def failure_def Let_def
      split: sum.splits prod.splits option.splits if_splits)

lemma worker_success:
  assumes "worker L c W selector u sh = (sh', r, ev)" and "IsSuccess r"
  shows "\<exists>content resp doc yamlBytes.
           processURL L W u selector = (Inr content, [HttpGet u])
         \<and> Client_Get_second W u = Inr resp
         \<and> readDocument L (Body resp) = Inr doc
         \<and> yaml_Marshal L ((getMetadata doc u)(''retrieved_at'' \<mapsto> time_Now W)) = Inr yamlBytes
         \<and> FileName r = getSanitizedTitle L doc u @ ''.md''
         \<and> Content r = ''---\<newline>'' @ yamlBytes @ ''---\<newline>\<newline>'' @ htmlToMarkdown L content
         \<and> ev = [HttpGet u, HttpGet u,
                 WriteFile (filepath_Join L (OutputDir c) (FileName r)) (Content r)]"
proof -
  obtain res pev where p: "processURL L W u selector = (res, pev)"
    by (cases "processURL L W u selector") auto
  then have pev: "pev = [HttpGet u]"
    using processURL_events [of L W u selector] by simp
  show ?thesis
    using assms p pev
    by (auto simp: worker_def failure_def Let_def
        split: sum.splits prod.splits option.splits if_splits)
qed

lemma runWorkers_counts:
  "foldl (runWorker L c W urls selector) (sh0, rs0) sched = (sh, rs) \<Longrightarrow>
     \<exists>new. rs = rs0 @ new \<and> length new = length sched
       \<and> successCount sh = successCount sh0 + int (length (filter IsSuccess new))
       \<and> errorCount sh = errorCount sh0 + int (length (filter (\<lambda>r. \<not> IsSuccess r) new))
       \<and> failedURLs sh = failedURLs sh0 @ map URL (filter (\<lambda>r. \<not> IsSuccess r) new)"
proof (induction sched arbitrary: sh0 rs0)
  case Nil
  then show ?case by simp
next
  case (Cons i sched)
  obtain sh1 r ev where w: "worker L c (W i) selector (urls ! i) sh0 = (sh1, r, ev)"
    by (cases "worker L c (W i) selector (urls ! i) sh0") auto
  then have step: "runWorker L c W urls selector (sh0, rs0) i = (sh1, rs0 @ [r])"
    by (simp add: runWorker_def)
  with Cons.prems have "foldl (runWorker L c W urls selector) (sh1, rs0 @ [r]) sched = (sh, rs)"
    by simp
  from Cons.IH [OF this] obtain new where new:
    "rs = (rs0 @ [r]) @ new" "length new = length sched"
    "successCount sh = successCount sh1 + int (length (filter IsSuccess new))"
    "errorCount sh = errorCount sh1 + int (length (filter (\<lambda>r. \<not> IsSuccess r) new))"
    "failedURLs sh = failedURLs sh1 @ map URL (filter (\<lambda>r. \<not> IsSuccess r) new)"
    by blast
  from worker_cases [OF w] have u: "URL r = urls ! i"
    and c: "(IsSuccess r \<and> sh1 = recordSuccess sh0)
          \<or> (\<not> IsSuccess r \<and> sh1 = recordFailure sh0 (urls ! i))"
    by simp_all
  from c show ?case
  proof
    assume "IsSuccess r \<and> sh1 = recordSuccess sh0"
    then show ?thesis using new
      by (intro exI [of _ "r # new"]) (simp add: recordSuccess_def)
  next
    assume "\<not> IsSuccess r \<and> sh1 = recordFailure sh0 (urls ! i)"
    then show ?thesis using new u
      by (intro exI [of _ "r # new"]) (simp add: recordFailure_def)
  qed
qed

lemma validSchedule_length: "validSchedule urls sched \<Longrightarrow> length sched = length urls"
  unfolding validSchedule_def using distinct_card [of sched] by auto

lemma exampleRun_value:
  "exampleRun =
     ([failure ''https://example.com/broken''
         ''failed to fetch URL https://example.com/broken: HTTP status 500'',
       \<lparr>URL = ''https://example.com/page'', FileName = ''my_page.md'',
        Content = ''---\<newline>description: A page\<newline>retrieved_at: 2024-01-01T00:00:00Z\<newline>source: https://example.com/page\<newline>title: My Page\<newline>---\<newline>\<newline>Hello'',
        Error = [], IsSuccess = True\<rparr>,
       failure ''https://intranet.example.com/''
         ''SSRF attack suspected: URL resolves to a non-public IP''],
      \<lparr>TotalURLs = 3, Successful = 1, Failed = 2,
       FailedURLs = [''https://example.com/broken'', ''https://intranet.example.com/''],
       ProcessingTime = ''12ms'', DownloadID = ''job-1''\<rparr>)"
  by code_simp

section \<open>The claims\<close>

text \<open>
  Claim C1. For every run of \<^verbatim>\<open>Convert\<close>, whatever the URLs, the selector, the answers of
  the outside world and the order in which the workers pass the critical section, the
  \<^verbatim>\<open>Summary\<close> built after the result stream is closed satisfies
  \<open>Successful + Failed = TotalURLs\<close> and \<open>length FailedURLs = Failed\<close>, and \<open>TotalURLs\<close> is the
  length of the URL list. The stream holds one \<^verbatim>\<open>Result\<close> per URL, \<open>FailedURLs\<close> lists the
  URLs of the failed ones, and when every URL fails \<open>Successful = 0\<close> and
  \<open>Failed = TotalURLs\<close>.
\<close>

theorem Convert_summary_consistent:
  assumes "validSchedule urls sched"
    and "Convert L c W elapsed urls selector sched = (results, summary)"
  shows "Successful summary + Failed summary = TotalURLs summary
    \<and> int (length (FailedURLs summary)) = Failed summary
    \<and> TotalURLs summary = int (length urls)
    \<and> length results = length urls
    \<and> FailedURLs summary = map URL (filter (\<lambda>r. \<not> IsSuccess r) results)
    \<and> (if list_ex IsSuccess results then 0 < Successful summary
        else Successful summary = 0 \<and> Failed summary = TotalURLs summary)"
proof -
  obtain sh where run: "runWorkers L c W urls selector sched = (sh, results)"
    and summary: "summary = \<lparr>TotalURLs = int (length urls), Successful = successCount sh,
        Failed = errorCount sh, FailedURLs = failedURLs sh, ProcessingTime = elapsed,
        DownloadID = ConverterDownloadID c\<rparr>"
    using assms(2) by (auto simp: Convert_def split: prod.splits)
  from run have "foldl (runWorker L c W urls selector) (noShared, []) sched = (sh, results)"
    by (simp add: runWorkers_def)
  from runWorkers_counts [OF this] have len: "length results = length sched"
    and succ: "successCount sh = int (length (filter IsSuccess results))"
    and err: "errorCount sh = int (length (filter (\<lambda>r. \<not> IsSuccess r) results))"
    and failed: "failedURLs sh = map URL (filter (\<lambda>r. \<not> IsSuccess r) results)"
    by (auto simp: noShared_def)
  have total: "length (filter IsSuccess results) + length (filter (\<lambda>r. \<not> IsSuccess r) results)
      = length results"
    by (rule sum_length_filter_compl)
  have n: "length results = length urls"
    using len validSchedule_length [OF assms(1)] by simp
  have none: "\<not> list_ex IsSuccess results \<Longrightarrow> filter IsSuccess results = []"
    by (simp add: list_ex_iff filter_empty_conv)
  have some: "list_ex IsSuccess results \<Longrightarrow> 0 < length (filter IsSuccess results)"
    by (simp add: list_ex_iff filter_empty_conv)
  show ?thesis
    using total n none some
    by (cases "list_ex IsSuccess results") (auto simp: summary succ err failed)
qed

theorem Convert_summary_consistent_witness:
  "validSchedule exampleUrls exampleSchedule
   \<and> Successful (snd exampleRun) + Failed (snd exampleRun) = TotalURLs (snd exampleRun)
   \<and> int (length (FailedURLs (snd exampleRun))) = Failed (snd exampleRun)
   \<and> TotalURLs (snd exampleRun) = 3
   \<and> Successful (snd exampleRun) = 1"
proof -
  have v: "validSchedule exampleUrls exampleSchedule"
    by (auto simp: validSchedule_def exampleUrls_def exampleSchedule_def)
  have c: "Convert exampleLib exampleConverter exampleWorlds ''12ms'' exampleUrls ''main''
             exampleSchedule = (fst exampleRun, snd exampleRun)"
    by (simp add: exampleRun_def)
  note t = Convert_summary_consistent [OF v c]
  from t have a1: "Successful (snd exampleRun) + Failed (snd exampleRun) = TotalURLs (snd exampleRun)"
    by blast
  from t have a2: "int (length (FailedURLs (snd exampleRun))) = Failed (snd exampleRun)"
    by blast
  from t have "TotalURLs (snd exampleRun) = int (length exampleUrls)"
    by blast
  then have a3: "TotalURLs (snd exampleRun) = 3"
    by (simp add: exampleUrls_def)
  have a4: "Successful (snd exampleRun) = 1"
    by (simp add: exampleRun_value)
  from v a1 a2 a3 a4 show ?thesis
    by blast
qed

text \<open>
  Claim C2. When the host name of a URL resolves to a list of addresses of which at least
  one is loopback, link-local (unicast or multicast) or private, the validator answers
  "not public", the worker sends a failure \<^verbatim>\<open>Result\<close> whose error says that an SSRF attack is
  suspected, and the worker performs no request and no write: its list of events is
  empty. One such address among several suffices.
\<close>

theorem non_public_address_blocks_url:
  assumes "url_Parse W u = Inr hostname"
    and "net_LookupIP W hostname = Inr ips"
    and "list_ex (\<lambda>ip. IsLoopback ip \<or> IsLinkLocalMulticast ip \<or> IsLinkLocalUnicast ip
                        \<or> IsPrivate ip) ips"
  shows "isPublicURL W u = Inr False
    \<and> worker L c W selector u sh =
        (recordFailure sh u,
         \<lparr>URL = u, FileName = [], Content = [],
          Error = ''SSRF attack suspected: URL resolves to a non-public IP'',
          IsSuccess = False\<rparr>,
         [])"
proof -
  have "allPublic ips = False"
    using assms(3) by (simp add: allPublic_iff)
  then have p: "isPublicURL W u = Inr False"
    using assms(1,2) by (simp add: isPublicURL_def)
  then show ?thesis
    by (simp add: worker_def failure_def)
qed

theorem non_public_address_blocks_url_witness:
  "url_Parse (exampleWorlds 1) ''https://intranet.example.com/'' = Inr ''intranet.example.com''
   \<and> net_LookupIP (exampleWorlds 1) ''intranet.example.com'' = Inr [publicIP, privateIP]
   \<and> IsPrivate privateIP
   \<and> worker exampleLib exampleConverter (exampleWorlds 1) ''main''
        ''https://intranet.example.com/'' noShared =
        (recordFailure noShared ''https://intranet.example.com/'',
         \<lparr>URL = ''https://intranet.example.com/'', FileName = [], Content = [],
          Error = ''SSRF attack suspected: URL resolves to a non-public IP'',
          IsSuccess = False\<rparr>,
         [])"
proof -
  have a: "url_Parse (exampleWorlds 1) ''https://intranet.example.com/''
      = Inr ''intranet.example.com''"
    by (simp add: exampleWorlds_def exampleWorld_def)
  have b: "net_LookupIP (exampleWorlds 1) ''intranet.example.com'' = Inr [publicIP, privateIP]"
    by (simp add: exampleWorlds_def exampleWorld_def)
  have p: "IsPrivate privateIP"
    by (simp add: privateIP_def)
  then have d: "list_ex (\<lambda>ip. IsLoopback ip \<or> IsLinkLocalMulticast ip \<or> IsLinkLocalUnicast ip
                        \<or> IsPrivate ip) [publicIP, privateIP]"
    by simp
  from non_public_address_blocks_url [OF a b d, of exampleLib exampleConverter "''main''" noShared]
  show ?thesis
    using a b p by blast
qed

lemma content_fetch_requires_200:
  assumes "Client_Get_first W u = Inr resp" and "StatusCode resp \<noteq> 200"
  shows "processURL L W u selector =
           (Inl (''failed to fetch URL '' @ u @ '': HTTP status '' @ showInt (StatusCode resp)),
            [HttpGet u])"
  using assms by (simp add: processURL_def)

text \<open>
  Claim C3. A response whose status is not 200 should fail both requests of the worker.
  The first request is checked (lemma \<open>content_fetch_requires_200\<close>); the second one, for
  the metadata, is not: the worker below gets status 200 for the content and status 404
  for the metadata, and it writes a file and sends a successful \<^verbatim>\<open>Result\<close>, with the title
  of the 404 page as file name.
\<close>

theorem metadata_fetch_ignores_status:
  "worker exampleLib exampleConverter secondFetch404 ''main'' ''https://example.com/page'' noShared =
     (recordSuccess noShared,
      \<lparr>URL = ''https://example.com/page'', FileName = ''not_found.md'',
       Content = ''---\<newline>retrieved_at: 2024-01-01T00:00:00Z\<newline>source: https://example.com/page\<newline>title: Not Found\<newline>---\<newline>\<newline>Hello'',
       Error = [], IsSuccess = True\<rparr>,
      [HttpGet ''https://example.com/page'', HttpGet ''https://example.com/page'',
       WriteFile ''out/not_found.md''
         ''---\<newline>retrieved_at: 2024-01-01T00:00:00Z\<newline>source: https://example.com/page\<newline>title: Not Found\<newline>---\<newline>\<newline>Hello''])"
  by code_simp

text \<open>
  Claim C4, as amended. The fragment of the example is rendered as the heading, the
  paragraph with its flattened text, and then the anchor once more as a link of its own:
  \<^verbatim>\<open># Title\n\nBody link\n\n[link](https://x)\<close>. The link does not stand inside the
  paragraph text.
\<close>

theorem htmlToMarkdown_fragment:
  assumes "NewDocumentFromReader L fragment = Inr fragmentDoc"
  shows "htmlToMarkdown L fragment = ''# Title\<newline>\<newline>Body link\<newline>\<newline>[link](https://x)''"
proof -
  have "markdownOfDocument fragmentDoc = ''# Title\<newline>\<newline>Body link\<newline>\<newline>[link](https://x)''"
    by code_simp
  then show ?thesis
    using assms by (simp add: htmlToMarkdown_def)
qed

theorem htmlToMarkdown_fragment_witness:
  "NewDocumentFromReader exampleLib fragment = Inr fragmentDoc
   \<and> htmlToMarkdown exampleLib fragment = ''# Title\<newline>\<newline>Body link\<newline>\<newline>[link](https://x)''"
proof -
  have a: "NewDocumentFromReader exampleLib fragment = Inr fragmentDoc"
    by (simp add: exampleLib_def exampleParser_def)
  from htmlToMarkdown_fragment [OF a] a show ?thesis
    by blast
qed

text \<open>
  The claim as stated fails: the result is not \<^verbatim>\<open># Title\n\nBody link\<close>.
\<close>

theorem htmlToMarkdown_fragment_counterexample:
  "htmlToMarkdown exampleLib fragment \<noteq> ''# Title\<newline>\<newline>Body link''"
  by code_simp

lemma Split_nonempty: "Split s sep \<noteq> []"
  by (induction s) (auto split: list.splits)

lemma getSanitizedTitle_titled:
  assumes "TrimSpace (Text (findWithMatcher [doc] (tagSelector ''title''))) = title"
    and "title \<noteq> []"
  shows "getSanitizedTitle L doc url = SanitizeFilename (unicodeLower L) title"
  using assms by (simp add: getSanitizedTitle_def Let_def)

lemma getSanitizedTitle_untitled:
  assumes "TrimSpace (Text (findWithMatcher [doc] (tagSelector ''title''))) = []"
  shows "getSanitizedTitle L doc url =
     SanitizeFilename (unicodeLower L)
       (let parts = Split url (CHR ''/'');
            lastPart = last parts;
            before = (if length parts > 1 then parts ! (length parts - 2) else [])
        in if lastPart \<noteq> [] then lastPart
           else if before \<noteq> [] then before
           else ''untitled'')"
proof -
  have "last (Split url (CHR ''/'')) = Split url (CHR ''/'') ! (length (Split url (CHR ''/'')) - 1)"
    by (rule last_conv_nth [OF Split_nonempty])
  moreover have "0 < length (Split url (CHR ''/''))"
    using Split_nonempty [of url "CHR ''/''"] by simp
  ultimately show ?thesis
    using assms by (simp add: getSanitizedTitle_def Let_def)
qed

lemma SanitizeFilename_docs: "SanitizeFilename f ''docs'' = ''docs''"
  by (simp add: SanitizeFilename_def ToLower_def isASCII_def lowerASCII_def isUpperASCII_def
      spacesToUnderscores_def removeOutsideClass_def inClass_def)

lemma SanitizeFilename_host: "SanitizeFilename f ''example.com'' = ''examplecom''"
  by (simp add: SanitizeFilename_def ToLower_def isASCII_def lowerASCII_def isUpperASCII_def
      spacesToUnderscores_def removeOutsideClass_def inClass_def)

text \<open>
  Claim C5, as amended. For a document whose \<^verbatim>\<open>title\<close> text is empty, the name is the
  sanitized last piece of the URL string split at \<^verbatim>\<open>/\<close>, the piece before it when the last
  one is empty, and \<^verbatim>\<open>untitled\<close> when that one is empty too. So
  \<^verbatim>\<open>https://example.com/docs/\<close> gives \<^verbatim>\<open>docs.md\<close>, and \<^verbatim>\<open>https://example.com/\<close> gives
  \<^verbatim>\<open>examplecom.md\<close>: the piece before the last is the host name.
\<close>

theorem fallback_filename:
  assumes "TrimSpace (Text (findWithMatcher [doc] (tagSelector ''title''))) = []"
  shows "getSanitizedTitle L doc ''https://example.com/docs/'' @ ''.md'' = ''docs.md''
    \<and> getSanitizedTitle L doc ''https://example.com/'' @ ''.md'' = ''examplecom.md''
    \<and> getSanitizedTitle L doc url =
        SanitizeFilename (unicodeLower L)
          (let parts = Split url (CHR ''/'');
               lastPart = last parts;
               before = (if length parts > 1 then parts ! (length parts - 2) else [])
           in if lastPart \<noteq> [] then lastPart
              else if before \<noteq> [] then before
              else ''untitled'')"
proof -
  have "getSanitizedTitle L doc ''https://example.com/docs/'' = ''docs''"
    by (simp add: getSanitizedTitle_untitled [OF assms] SanitizeFilename_docs)
  moreover have "getSanitizedTitle L doc ''https://example.com/'' = ''examplecom''"
    by (simp add: getSanitizedTitle_untitled [OF assms] SanitizeFilename_host)
  ultimately show ?thesis
    using getSanitizedTitle_untitled [OF assms, of L url] by simp
qed

theorem fallback_filename_witness:
  "TrimSpace (Text (findWithMatcher [untitledDoc] (tagSelector ''title''))) = []
   \<and> getSanitizedTitle exampleLib untitledDoc ''https://example.com/docs/'' @ ''.md'' = ''docs.md''
   \<and> getSanitizedTitle exampleLib untitledDoc ''https://example.com/'' @ ''.md'' = ''examplecom.md''"
proof -
  have a: "TrimSpace (Text (findWithMatcher [untitledDoc] (tagSelector ''title''))) = []"
    by code_simp
  from fallback_filename [OF a, of exampleLib] a show ?thesis
    by blast
qed

text \<open>
  The claim as stated fails: without title, \<^verbatim>\<open>https://example.com/\<close> does not give
  \<^verbatim>\<open>untitled.md\<close>.
\<close>

theorem fallback_filename_counterexample:
  "getSanitizedTitle exampleLib untitledDoc ''https://example.com/'' @ ''.md'' \<noteq> ''untitled.md''"
  by code_simp

text \<open>
  Claim C6. When the document of the first request has no element matching the caller's
  selector, \<^verbatim>\<open>processURL\<close> returns an error whose message holds the URL and the selector,
  and the worker sends a failure \<^verbatim>\<open>Result\<close> with this message. The worker stops there: the
  one request of \<^verbatim>\<open>processURL\<close> is all it has performed, so nothing else is extracted,
  fetched or written.
\<close>

theorem selector_without_match_fails:
  assumes "isPublicURL W u = Inr True"
    and "Client_Get_first W u = Inr resp"
    and "StatusCode resp = 200"
    and "readDocument L (Body resp) = Inr doc"
    and "Find L doc selector = []"
  shows "processURL L W u selector =
           (Inl (''could not find content in '' @ u @ '' using selector '' @ [CHR 0x27]
                 @ selector @ [CHR 0x27]),
            [HttpGet u])
    \<and> worker L c W selector u sh =
        (recordFailure sh u,
         \<lparr>URL = u, FileName = [], Content = [],
          Error = ''could not find content in '' @ u @ '' using selector '' @ [CHR 0x27]
                  @ selector @ [CHR 0x27],
          IsSuccess = False\<rparr>,
         [HttpGet u])
    \<and> sublist u (''could not find content in '' @ u @ '' using selector '' @ [CHR 0x27]
                  @ selector @ [CHR 0x27])
    \<and> sublist selector (''could not find content in '' @ u @ '' using selector '' @ [CHR 0x27]
                  @ selector @ [CHR 0x27])"
proof -
  have p: "processURL L W u selector =
           (Inl (''could not find content in '' @ u @ '' using selector '' @ [CHR 0x27]
                 @ selector @ [CHR 0x27]),
            [HttpGet u])"
    using assms(2-5) by (simp add: processURL_def)
  have w: "worker L c W selector u sh =
        (recordFailure sh u,
         \<lparr>URL = u, FileName = [], Content = [],
          Error = ''could not find content in '' @ u @ '' using selector '' @ [CHR 0x27]
                  @ selector @ [CHR 0x27],
          IsSuccess = False\<rparr>,
         [HttpGet u])"
    using assms(1) p by (simp add: worker_def failure_def)
  have s1: "sublist u (''could not find content in '' @ u @ '' using selector '' @ [CHR 0x27]
                  @ selector @ [CHR 0x27])"
    by (rule sublist_middle)
  have s2: "sublist selector (''could not find content in '' @ u @ '' using selector '' @ [CHR 0x27]
                  @ selector @ [CHR 0x27])"
    by (rule sublist_middle2)
  from p w s1 s2 show ?thesis
    by blast
qed

theorem selector_without_match_fails_witness:
  "isPublicURL (exampleWorlds 0) ''https://example.com/page'' = Inr True
   \<and> Client_Get_first (exampleWorlds 0) ''https://example.com/page''
       = Inr \<lparr>StatusCode = 200, Body = pageBody\<rparr>
   \<and> readDocument exampleLib pageBody = Inr pageDoc
   \<and> Find exampleLib pageDoc ''article'' = []
   \<and> worker exampleLib exampleConverter (exampleWorlds 0) ''article''
        ''https://example.com/page'' noShared =
        (recordFailure noShared ''https://example.com/page'',
         \<lparr>URL = ''https://example.com/page'', FileName = [], Content = [],
          Error = ''could not find content in https://example.com/page using selector ''
                  @ [CHR 0x27] @ ''article'' @ [CHR 0x27],
          IsSuccess = False\<rparr>,
         [HttpGet ''https://example.com/page''])"
proof -
  have a: "isPublicURL (exampleWorlds 0) ''https://example.com/page'' = Inr True"
    by code_simp
  have b: "Client_Get_first (exampleWorlds 0) ''https://example.com/page''
       = Inr \<lparr>StatusCode = 200, Body = pageBody\<rparr>"
    by (simp add: exampleWorlds_def exampleWorld_def)
  have s: "StatusCode \<lparr>StatusCode = 200, Body = pageBody\<rparr> = 200"
    by simp
  have d: "readDocument exampleLib (Body \<lparr>StatusCode = 200, Body = pageBody\<rparr>) = Inr pageDoc"
    by code_simp
  have e: "Find exampleLib pageDoc ''article'' = []"
    by code_simp
  from selector_without_match_fails [OF a b s d e, of exampleConverter noShared] a b d e
  show ?thesis
    by simp
qed

lemma markdownOfDocument_clean:
  "\<not> sublist [CHR 0x0A, CHR 0x0A, CHR 0x0A] (markdownOfDocument doc)
   \<and> \<not> startsWithSpace (markdownOfDocument doc) \<and> \<not> endsWithSpace (markdownOfDocument doc)"
proof -
  have "\<And>t. \<not> sublist [CHR 0x0A, CHR 0x0A, CHR 0x0A] (TrimSpace (collapseNewlines t))"
    using collapseNewlines_no_triple TrimSpace_sublist sublist_order.order.trans by blast
  then show ?thesis
    by (simp add: markdownOfDocument_def Let_def TrimSpace_trimmed)
qed

lemma htmlToMarkdown_clean:
  "\<not> sublist [CHR 0x0A, CHR 0x0A, CHR 0x0A] (htmlToMarkdown L h)
   \<and> \<not> startsWithSpace (htmlToMarkdown L h) \<and> \<not> endsWithSpace (htmlToMarkdown L h)"
proof (cases "NewDocumentFromReader L h")
  case (Inl err)
  have "\<not> startsWithSpace []" and "\<not> endsWithSpace []"
    by (simp_all add: startsWithSpace_def endsWithSpace_def whiteSpace_def)
  then show ?thesis
    using Inl by (simp add: htmlToMarkdown_def)
next
  case (Inr doc)
  then show ?thesis
    using markdownOfDocument_clean [of doc] by (simp add: htmlToMarkdown_def)
qed

lemma exampleWorker_value:
  "worker exampleLib exampleConverter (exampleWorlds 0) ''main'' ''https://example.com/page'' noShared =
     (recordSuccess noShared,
      \<lparr>URL = ''https://example.com/page'', FileName = ''my_page.md'',
       Content = ''---\<newline>description: A page\<newline>retrieved_at: 2024-01-01T00:00:00Z\<newline>source: https://example.com/page\<newline>title: My Page\<newline>---\<newline>\<newline>Hello'',
       Error = [], IsSuccess = True\<rparr>,
      [HttpGet ''https://example.com/page'', HttpGet ''https://example.com/page'',
       WriteFile ''out/my_page.md''
         ''---\<newline>description: A page\<newline>retrieved_at: 2024-01-01T00:00:00Z\<newline>source: https://example.com/page\<newline>title: My Page\<newline>---\<newline>\<newline>Hello''])"
  by code_simp

text \<open>
  Claim C7. The file of a successful conversion is the line \<^verbatim>\<open>---\<close>, the serialised
  metadata, the line \<^verbatim>\<open>---\<close>, an empty line and the Markdown body, in this order and with
  nothing else; it is what the worker writes. The body holds no three newlines in a row,
  and it neither starts nor ends with white space.
\<close>

theorem written_file_layout:
  assumes "worker L c W selector u sh = (sh', r, ev)" and "IsSuccess r"
  shows "\<exists>yamlBytes body path.
           Content r = ''---\<newline>'' @ yamlBytes @ ''---\<newline>\<newline>'' @ body
         \<and> ev = [HttpGet u, HttpGet u, WriteFile path (Content r)]
         \<and> (\<exists>metadata. yaml_Marshal L metadata = Inr yamlBytes)
         \<and> (\<exists>content. fst (processURL L W u selector) = Inr content
                       \<and> body = htmlToMarkdown L content)
         \<and> \<not> sublist ''\<newline>\<newline>\<newline>'' body
         \<and> \<not> startsWithSpace body
         \<and> \<not> endsWithSpace body"
proof -
  from worker_success [OF assms] obtain content resp doc yamlBytes where s:
    "processURL L W u selector = (Inr content, [HttpGet u])"
    "yaml_Marshal L ((getMetadata doc u)(''retrieved_at'' \<mapsto> time_Now W)) = Inr yamlBytes"
    "Content r = ''---\<newline>'' @ yamlBytes @ ''---\<newline>\<newline>'' @ htmlToMarkdown L content"
    "ev = [HttpGet u, HttpGet u,
           WriteFile (filepath_Join L (OutputDir c) (FileName r)) (Content r)]"
    by blast
  have p: "fst (processURL L W u selector) = Inr content"
    using s(1) by simp
  show ?thesis
    using s(2-4) p htmlToMarkdown_clean [of L content] by blast
qed

theorem written_file_layout_witness:
  "IsSuccess (fst (snd (worker exampleLib exampleConverter (exampleWorlds 0) ''main''
       ''https://example.com/page'' noShared)))
   \<and> (\<exists>yamlBytes body path.
         Content (fst (snd (worker exampleLib exampleConverter (exampleWorlds 0) ''main''
           ''https://example.com/page'' noShared)))
           = ''---\<newline>'' @ yamlBytes @ ''---\<newline>\<newline>'' @ body
       \<and> \<not> sublist ''\<newline>\<newline>\<newline>'' body
       \<and> \<not> startsWithSpace body
       \<and> \<not> endsWithSpace body)"
proof -
  let ?w = "worker exampleLib exampleConverter (exampleWorlds 0) ''main''
       ''https://example.com/page'' noShared"
  have a: "?w = (fst ?w, fst (snd ?w), snd (snd ?w))"
    by simp
  have b: "IsSuccess (fst (snd ?w))"
    by (simp add: exampleWorker_value)
  from written_file_layout [OF a b] b show ?thesis
    by blast
qed

lemma foldl_setFromContent_key:
  "(foldl (setFromContent key) m nodes key \<noteq> None) =
     (m key \<noteq> None \<or> list_ex (\<lambda>s. AttrOf s ''content'' \<noteq> None) nodes)"
  by (induction nodes arbitrary: m) (auto simp: setFromContent_def split: option.splits)

lemma foldl_setFromContent_other:
  "k \<noteq> key \<Longrightarrow> foldl (setFromContent key) m nodes k = m k"
  by (induction nodes arbitrary: m) (auto simp: setFromContent_def split: option.splits)

text \<open>
  Claim C8. \<^verbatim>\<open>getMetadata\<close> has no error result: it returns a mapping for every document
  and URL. The mapping holds the URL under \<^verbatim>\<open>source\<close>; it holds \<^verbatim>\<open>title\<close> (the trimmed title
  text) exactly when that text is not empty; it holds \<^verbatim>\<open>description\<close>, and likewise
  \<^verbatim>\<open>keywords\<close>, exactly when some \<^verbatim>\<open>meta\<close> element of that name has a \<^verbatim>\<open>content\<close> attribute.
  The metadata serialised into the file of a successful conversion is this mapping for
  the document of the second request, extended by \<^verbatim>\<open>retrieved_at\<close>.
\<close>

theorem getMetadata_keys:
  "getMetadata doc url ''source'' = Some url
   \<and> getMetadata doc url ''title'' =
       (if TrimSpace (Text (findWithMatcher [doc] (tagSelector ''title''))) \<noteq> []
        then Some (TrimSpace (Text (findWithMatcher [doc] (tagSelector ''title''))))
        else None)
   \<and> (getMetadata doc url ''description'' \<noteq> None) =
       list_ex (\<lambda>s. AttrOf s ''content'' \<noteq> None) (findWithMatcher [doc] (metaNamed ''description''))
   \<and> (getMetadata doc url ''keywords'' \<noteq> None) =
       list_ex (\<lambda>s. AttrOf s ''content'' \<noteq> None) (findWithMatcher [doc] (metaNamed ''keywords''))
   \<and> (worker L c W selector u sh = (sh', r, ev) \<and> IsSuccess r \<longrightarrow>
        (\<exists>resp page metadata yamlBytes body.
            Client_Get_second W u = Inr resp
          \<and> readDocument L (Body resp) = Inr page
          \<and> metadata = (getMetadata page u)(''retrieved_at'' \<mapsto> time_Now W)
          \<and> metadata ''retrieved_at'' = Some (time_Now W)
          \<and> metadata ''source'' = Some u
          \<and> yaml_Marshal L metadata = Inr yamlBytes
          \<and> Content r = ''---\<newline>'' @ yamlBytes @ ''---\<newline>\<newline>'' @ body))"
proof -
  have src: "getMetadata d x ''source'' = Some x" for d x
    by (simp add: getMetadata_def Let_def foldl_setFromContent_other)
  have title: "getMetadata doc url ''title'' =
       (if TrimSpace (Text (findWithMatcher [doc] (tagSelector ''title''))) \<noteq> []
        then Some (TrimSpace (Text (findWithMatcher [doc] (tagSelector ''title''))))
        else None)"
    by (simp add: getMetadata_def Let_def foldl_setFromContent_other)
  have desc: "(getMetadata doc url ''description'' \<noteq> None) =
       list_ex (\<lambda>s. AttrOf s ''content'' \<noteq> None) (findWithMatcher [doc] (metaNamed ''description''))"
    by (simp add: getMetadata_def Let_def foldl_setFromContent_other foldl_setFromContent_key
        del: not_None_eq)
  have keys: "(getMetadata doc url ''keywords'' \<noteq> None) =
       list_ex (\<lambda>s. AttrOf s ''content'' \<noteq> None) (findWithMatcher [doc] (metaNamed ''keywords''))"
    by (simp add: getMetadata_def Let_def foldl_setFromContent_other foldl_setFromContent_key
        del: not_None_eq)
  have run: "\<exists>resp page metadata yamlBytes body.
            Client_Get_second W u = Inr resp
          \<and> readDocument L (Body resp) = Inr page
          \<and> metadata = (getMetadata page u)(''retrieved_at'' \<mapsto> time_Now W)
          \<and> metadata ''retrieved_at'' = Some (time_Now W)
          \<and> metadata ''source'' = Some u
          \<and> yaml_Marshal L metadata = Inr yamlBytes
          \<and> Content r = ''---\<newline>'' @ yamlBytes @ ''---\<newline>\<newline>'' @ body"
    if w: "worker L c W selector u sh = (sh', r, ev)" and ok: "IsSuccess r"
  proof -
    from worker_success [OF w ok] obtain content resp page yamlBytes where s:
      "Client_Get_second W u = Inr resp"
      "readDocument L (Body resp) = Inr page"
      "yaml_Marshal L ((getMetadata page u)(''retrieved_at'' \<mapsto> time_Now W)) = Inr yamlBytes"
      "Content r = ''---\<newline>'' @ yamlBytes @ ''---\<newline>\<newline>'' @ htmlToMarkdown L content"
      by blast
    have "((getMetadata page u)(''retrieved_at'' \<mapsto> time_Now W)) ''source'' = Some u"
      using src [of page u] by simp
    moreover have "((getMetadata page u)(''retrieved_at'' \<mapsto> time_Now W)) ''retrieved_at''
        = Some (time_Now W)"
      by simp
    ultimately show ?thesis
      using s by blast
  qed
  from src [of doc url] title desc keys run show ?thesis
    by blast
qed

theorem getMetadata_keys_witness:
  "worker exampleLib exampleConverter (exampleWorlds 0) ''main'' ''https://example.com/page'' noShared
     = (recordSuccess noShared,
        fst (snd (worker exampleLib exampleConverter (exampleWorlds 0) ''main''
                    ''https://example.com/page'' noShared)),
        snd (snd (worker exampleLib exampleConverter (exampleWorlds 0) ''main''
                    ''https://example.com/page'' noShared)))
   \<and> IsSuccess (fst (snd (worker exampleLib exampleConverter (exampleWorlds 0) ''main''
                    ''https://example.com/page'' noShared)))
   \<and> getMetadata pageDoc ''https://example.com/page'' ''source'' = Some ''https://example.com/page''
   \<and> getMetadata pageDoc ''https://example.com/page'' ''title'' = Some ''My Page''
   \<and> getMetadata pageDoc ''https://example.com/page'' ''description'' \<noteq> None
   \<and> getMetadata pageDoc ''https://example.com/page'' ''keywords'' = None
   \<and> (\<exists>metadata yamlBytes body.
          metadata ''retrieved_at'' = Some ''2024-01-01T00:00:00Z''
        \<and> metadata ''source'' = Some ''https://example.com/page''
        \<and> yaml_Marshal exampleLib metadata = Inr yamlBytes
        \<and> Content (fst (snd (worker exampleLib exampleConverter (exampleWorlds 0) ''main''
                    ''https://example.com/page'' noShared)))
            = ''---\<newline>'' @ yamlBytes @ ''---\<newline>\<newline>'' @ body)"
proof -
  let ?u = "''https://example.com/page''"
  let ?w = "worker exampleLib exampleConverter (exampleWorlds 0) ''main'' ?u noShared"
  have a: "?w = (recordSuccess noShared, fst (snd ?w), snd (snd ?w))"
    by (simp add: exampleWorker_value)
  have b: "IsSuccess (fst (snd ?w))"
    by (simp add: exampleWorker_value)
  have t: "time_Now (exampleWorlds 0) = ''2024-01-01T00:00:00Z''"
    by (simp add: exampleWorlds_def exampleWorld_def)
  have title: "TrimSpace (Text (findWithMatcher [pageDoc] (tagSelector ''title''))) = ''My Page''"
    by code_simp
  have desc: "list_ex (\<lambda>s. AttrOf s ''content'' \<noteq> None)
                (findWithMatcher [pageDoc] (metaNamed ''description''))"
    by code_simp
  have keys: "\<not> list_ex (\<lambda>s. AttrOf s ''content'' \<noteq> None)
                (findWithMatcher [pageDoc] (metaNamed ''keywords''))"
    by code_simp
  note k = getMetadata_keys [of pageDoc ?u exampleLib exampleConverter "exampleWorlds 0"
      "''main''" ?u noShared "recordSuccess noShared" "fst (snd ?w)" "snd (snd ?w)"]
  from k have k1: "getMetadata pageDoc ?u ''source'' = Some ?u"
    by blast
  from k title have k2: "getMetadata pageDoc ?u ''title'' = Some ''My Page''"
    by simp
  from k desc have k3: "getMetadata pageDoc ?u ''description'' \<noteq> None"
    by blast
  from k keys have k4: "getMetadata pageDoc ?u ''keywords'' = None"
    by blast
  from k a b t have k5: "\<exists>metadata yamlBytes body.
          metadata ''retrieved_at'' = Some ''2024-01-01T00:00:00Z''
        \<and> metadata ''source'' = Some ?u
        \<and> yaml_Marshal exampleLib metadata = Inr yamlBytes
        \<and> Content (fst (snd ?w)) = ''---\<newline>'' @ yamlBytes @ ''---\<newline>\<newline>'' @ body"
    by metis
  from a b k1 k2 k3 k4 k5 show ?thesis
    by blast
qed

text \<open>
  Claim C10, as amended. When the trimmed title text is not empty, the name is the
  sanitized title and the \<^verbatim>\<open>untitled\<close> fallback is not applied. If, after lower-casing,
  every character of the title is outside \<^verbatim>\<open>[a-z0-9_ ]\<close>, as for \<^verbatim>\<open>!!!\<close>, the name is empty
  and the file name is \<^verbatim>\<open>.md\<close>.
\<close>

theorem title_without_allowed_characters:
  assumes "TrimSpace (Text (findWithMatcher [doc] (tagSelector ''title''))) = title"
    and "title \<noteq> []"
  shows "getSanitizedTitle L doc url = SanitizeFilename (unicodeLower L) title
    \<and> (list_all (\<lambda>ch. \<not> inClass ch \<and> ch \<noteq> CHR '' '') (ToLower (unicodeLower L) title)
         \<longrightarrow> getSanitizedTitle L doc url = [] \<and> getSanitizedTitle L doc url @ ''.md'' = ''.md'')"
proof -
  have g: "getSanitizedTitle L doc url = SanitizeFilename (unicodeLower L) title"
    by (rule getSanitizedTitle_titled [OF assms])
  have "SanitizeFilename f title = []"
    if "list_all (\<lambda>ch. \<not> inClass ch \<and> ch \<noteq> CHR '' '') (ToLower f title)" for f
  proof -
    from that have "\<forall>ch \<in> set (ToLower f title). \<not> inClass ch \<and> ch \<noteq> CHR '' ''"
      by (simp add: list_all_iff)
    then show ?thesis
      by (auto simp: SanitizeFilename_def spacesToUnderscores_def removeOutsideClass_def
          filter_empty_conv)
  qed
  then show ?thesis
    using g by simp
qed

theorem title_without_allowed_characters_witness:
  "TrimSpace (Text (findWithMatcher [titledDoc ''!!!''] (tagSelector ''title''))) = ''!!!''
   \<and> list_all (\<lambda>ch. \<not> inClass ch \<and> ch \<noteq> CHR '' '') (ToLower (unicodeLower exampleLib) ''!!!'')
   \<and> getSanitizedTitle exampleLib (titledDoc ''!!!'') ''https://example.com/'' @ ''.md'' = ''.md''"
proof -
  have a: "TrimSpace (Text (findWithMatcher [titledDoc ''!!!''] (tagSelector ''title''))) = ''!!!''"
    by code_simp
  have b: "''!!!'' \<noteq> []"
    by simp
  have d: "list_all (\<lambda>ch. \<not> inClass ch \<and> ch \<noteq> CHR '' '') (ToLower (unicodeLower exampleLib) ''!!!'')"
    by code_simp
  from title_without_allowed_characters [OF a b, of exampleLib "''https://example.com/''"] a d
  show ?thesis
    by blast
qed

text \<open>
  The claim as stated fails for a title of upper-case letters: \<^verbatim>\<open>A\<close> is outside
  \<^verbatim>\<open>[a-z0-9_ ]\<close>, and the file name is \<^verbatim>\<open>a.md\<close>.
\<close>

theorem title_without_allowed_characters_counterexample:
  "TrimSpace (Text (findWithMatcher [titledDoc ''A''] (tagSelector ''title''))) = ''A''
   \<and> \<not> inClass (CHR ''A'') \<and> CHR ''A'' \<noteq> CHR '' ''
   \<and> getSanitizedTitle exampleLib (titledDoc ''A'') ''https://example.com/'' @ ''.md'' = ''a.md''"
  by code_simp

text \<open>
  Claim C9. \<^verbatim>\<open>SanitizeFilename\<close> is idempotent, and every character of its result is in
  \<^verbatim>\<open>[a-z0-9_]\<close>; this holds for every input string and whatever the Unicode lower-case
  tables are.
\<close>

theorem SanitizeFilename_idempotent:
  "SanitizeFilename f (SanitizeFilename f s) = SanitizeFilename f s
   \<and> list_all inClass (SanitizeFilename f s)"
  by (simp add: SanitizeFilename_fixed SanitizeFilename_inClass)

end
